theory Spec2Isabelle
  imports Main
begin

section \<open>The NousResearch provider: data\<close>

text \<open>
  The events of an \<open>ApiStream\<close> that \<open>createMessage\<close> yields:
  \<^verbatim>\<open>{type: "text", text}\<close>, \<^verbatim>\<open>{type: "reasoning", reasoning}\<close> and
  \<^verbatim>\<open>{type: "usage", inputTokens, outputTokens}\<close>.
\<close>

datatype event =
  Text string
| Reasoning string
| Usage int int

text \<open>An outbound \<open>ChatCompletionMessageParam\<close>: \<^verbatim>\<open>{role, content}\<close>.\<close>

record chat_message =
  role :: string
  content :: string

text \<open>
  An inbound \<open>ChatCompletionChunk\<close>. A field that is absent, \<open>undefined\<close> or \<open>null\<close> is
  \<open>None\<close>. The source asks \<^verbatim>\<open>"reasoning_content" in delta\<close> before it reads the field, so
  \<open>reasoning_content\<close> has two levels: \<open>None\<close> when the delta has no such key, \<open>Some None\<close>
  when the key is there with \<open>undefined\<close> or \<open>null\<close>.
\<close>

record delta =
  content :: "string option"
  reasoning_content :: "string option option"

record choice =
  delta :: "delta option"

record completion_usage =
  prompt_tokens :: "int option"
  completion_tokens :: "int option"

record chunk =
  choices :: "choice list"
  usage :: "completion_usage option"

text \<open>The body of the \<open>chat.completions.create\<close> request.\<close>

record stream_options =
  include_usage :: bool

record request =
  model :: string
  messages :: "chat_message list"
  temperature :: int
  stream :: bool
  stream_options :: stream_options

text \<open>
  What the source throws: \<^verbatim>\<open>new Error(message)\<close> by the handler itself, and the errors
  of the OpenAI client (an optional HTTP status and a message).
\<close>

datatype error =
  Error string
| APIError "nat option" string

record options =
  nousResearchApiKey :: "string option"
  apiModelId :: "string option"

text \<open>The OpenAI client, as far as the handler configures it.\<close>

record openai =
  baseURL :: string
  apiKey :: string

record handler =
  options :: options
  client :: "openai option"

section \<open>JavaScript values\<close>

text \<open>A string is truthy when it is defined and not empty.\<close>

definition truthy :: "string option \<Rightarrow> bool" where
  "truthy v = (case v of None \<Rightarrow> False | Some s \<Rightarrow> s \<noteq> [])"

text \<open>\<^verbatim>\<open>n || 0\<close> on a number that may be absent.\<close>

definition or_zero :: "int option \<Rightarrow> int" where
  "or_zero v = (case v of None \<Rightarrow> 0 | Some n \<Rightarrow> if n \<noteq> 0 then n else 0)"

text \<open>\<^verbatim>\<open>s || ""\<close> on a string that may be absent.\<close>

definition or_empty :: "string option \<Rightarrow> string" where
  "or_empty v = (case v of None \<Rightarrow> [] | Some s \<Rightarrow> if s \<noteq> [] then s else [])"

text \<open>
  The static table \<open>nousresearchModels\<close> is an object of \<^verbatim>\<open>@shared/api\<close>, which is not
  among the sources; its own properties are a parameter \<open>string \<rightharpoonup> 'info\<close> of the model.
  The source reads it with \<^verbatim>\<open>modelId in nousresearchModels\<close> and
  \<^verbatim>\<open>nousresearchModels[id]\<close>. On an ordinary object both follow the prototype chain, so
  they also see the properties of \<open>Object.prototype\<close>.
\<close>

definition object_prototype :: "string list" where
  "object_prototype =
     [''constructor'', ''__defineGetter__'', ''__defineSetter__'', ''hasOwnProperty'',
      ''__lookupGetter__'', ''__lookupSetter__'', ''isPrototypeOf'', ''propertyIsEnumerable'',
      ''toString'', ''valueOf'', ''__proto__'', ''toLocaleString'']"

datatype 'info property =
  ModelInfo 'info
| Inherited string
| Undefined

definition js_in :: "string \<Rightarrow> (string \<rightharpoonup> 'info) \<Rightarrow> bool" where
  "js_in k obj = (obj k \<noteq> None \<or> k \<in> set object_prototype)"

definition js_get :: "(string \<rightharpoonup> 'info) \<Rightarrow> string \<Rightarrow> 'info property" where
  "js_get obj k =
     (case obj k of
        Some v \<Rightarrow> ModelInfo v
      | None \<Rightarrow> if k \<in> set object_prototype then Inherited k else Undefined)"

section \<open>Translating one inbound chunk\<close>

text \<open>\<^verbatim>\<open>chunk.choices[0]?.delta\<close>: \<open>undefined\<close> when there is no first choice.\<close>

definition chunk_delta :: "chunk \<Rightarrow> delta option" where
  "chunk_delta c = (case choices c of [] \<Rightarrow> None | ch # _ \<Rightarrow> delta ch)"

text \<open>
  The body of the \<^verbatim>\<open>for await (const chunk of stream)\<close> loop of \<open>createMessage\<close>: the
  events it yields for one chunk, in the order of the three \<open>if\<close> statements.
\<close>

definition createMessage_chunk :: "chunk \<Rightarrow> event list" where
  "createMessage_chunk c =
     (let d = chunk_delta c;
          out1 = (case d of
                    None \<Rightarrow> []
                  | Some dl \<Rightarrow>
                      (case delta.content dl of
                         None \<Rightarrow> []
                       | Some s \<Rightarrow> if s \<noteq> [] then [Text s] else []));
          out2 = (case d of
                    None \<Rightarrow> out1
                  | Some dl \<Rightarrow>
                      (case reasoning_content dl of
                         None \<Rightarrow> out1
                       | Some rc \<Rightarrow>
                           if truthy rc then out1 @ [Reasoning (or_empty rc)] else out1));
          out3 = (case usage c of
                    None \<Rightarrow> out2
                  | Some u \<Rightarrow>
                      out2 @ [Usage (or_zero (prompt_tokens u)) (or_zero (completion_tokens u))])
      in out3)"

text \<open>The loop over the chunks of the stream, in the order they arrive.\<close>

fun createMessage_loop :: "chunk list \<Rightarrow> event list" where
  "createMessage_loop [] = []"
| "createMessage_loop (c # cs) = createMessage_chunk c @ createMessage_loop cs"

text \<open>The position of an event's kind in the body of the loop.\<close>

fun kind :: "event \<Rightarrow> nat" where
  "kind (Text _) = 0"
| "kind (Reasoning _) = 1"
| "kind (Usage _ _) = 2"

text \<open>A chunk with no content, no reasoning content and no usage.\<close>

definition unset :: "chunk \<Rightarrow> bool" where
  "unset c =
     (usage c = None \<and>
      (case chunk_delta c of
         None \<Rightarrow> True
       | Some d \<Rightarrow>
           delta.content d = None \<and>
           (reasoning_content d = None \<or> reasoning_content d = Some None)))"

section \<open>The handler\<close>

text \<open>
  What the handler imports from outside the sources, as parameters: the constructor of the
  OpenAI client (\<open>Inl\<close> the message of the error it throws), the client's
  \<open>chat.completions.create\<close> (given the requests sent so far, it either throws or streams
  chunks and then possibly fails), \<open>convertToOpenAiMessages\<close>, and the model table with its
  default identifier.
\<close>

record ('h, 'info) env =
  newOpenAI :: "openai \<Rightarrow> string + openai"
  create :: "request list \<Rightarrow> openai \<Rightarrow> request \<Rightarrow> error + chunk list \<times> error option"
  convertToOpenAiMessages :: "'h list \<Rightarrow> chat_message list"
  nousresearchModels :: "string \<rightharpoonup> 'info"
  nousresearchDefaultModelId :: string

text \<open>The constructor stores the options; the client is created on first use.\<close>

definition NousresearchHandler :: "options \<Rightarrow> handler" where
  "NousresearchHandler opts = \<lparr>options = opts, client = None\<rparr>"

definition ensureClient :: "('h, 'info) env \<Rightarrow> handler \<Rightarrow> (error + openai) \<times> handler" where
  "ensureClient env h =
     (case client h of
        Some cl \<Rightarrow> (Inr cl, h)
      | None \<Rightarrow>
          if \<not> truthy (nousResearchApiKey (options h))
          then (Inl (Error ''NousResearch API key is required''), h)
          else
            (case newOpenAI env
                    \<lparr>baseURL = ''https://inference-api.nousresearch.com/v1'',
                     apiKey = or_empty (nousResearchApiKey (options h))\<rparr> of
               Inl msg \<Rightarrow> (Inl (Error (''Error creating NousResearch client: '' @ msg)), h)
             | Inr cl \<Rightarrow> (Inr cl, h\<lparr>client := Some cl\<rparr>)))"

definition getModel :: "('h, 'info) env \<Rightarrow> handler \<Rightarrow> string \<times> 'info property" where
  "getModel env h =
     (let modelId = apiModelId (options h) in
      if truthy modelId \<and> js_in (or_empty modelId) (nousresearchModels env)
      then (let id = or_empty modelId in (id, js_get (nousresearchModels env) id))
      else (nousresearchDefaultModelId env,
            js_get (nousresearchModels env) (nousresearchDefaultModelId env)))"

text \<open>The argument of \<open>client.chat.completions.create\<close>.\<close>

definition createMessage_request ::
  "('h, 'info) env \<Rightarrow> handler \<Rightarrow> string \<Rightarrow> 'h list \<Rightarrow> request" where
  "createMessage_request env h systemPrompt msgs =
     (let model = getModel env h;
          openAiMessages =
            \<lparr>role = ''system'', chat_message.content = systemPrompt\<rparr>
              # convertToOpenAiMessages env msgs
      in \<lparr>model = fst model, messages = openAiMessages, temperature = 0, stream = True,
          stream_options = \<lparr>include_usage = True\<rparr>\<rparr>)"

text \<open>
  The generator \<open>createMessage\<close>, run to its end: the events it yields and the error it
  throws after them, if any. The state is the handler and the requests that have gone to
  the network.
\<close>

type_synonym outcome = "event list \<times> error option"

definition createMessage ::
  "('h, 'info) env \<Rightarrow> string \<Rightarrow> 'h list \<Rightarrow> handler \<times> request list
     \<Rightarrow> outcome \<times> handler \<times> request list" where
  "createMessage env systemPrompt msgs st =
     (case st of (h, net) \<Rightarrow>
        (case ensureClient env h of
           (Inl e, h') \<Rightarrow> (([], Some e), h', net)
         | (Inr cl, h') \<Rightarrow>
             (let req = createMessage_request env h' systemPrompt msgs in
              case create env net cl req of
                Inl e \<Rightarrow> (([], Some e), h', net @ [req])
              | Inr (chunks, failure) \<Rightarrow>
                  ((createMessage_loop chunks, failure), h', net @ [req]))))"

text \<open>
  The stream that the backend opens for a call, if the call gets that far: the chunks it
  delivers and the error it ends with, if any.
\<close>

definition inbound ::
  "('h, 'info) env \<Rightarrow> string \<Rightarrow> 'h list \<Rightarrow> handler \<times> request list
     \<Rightarrow> (chunk list \<times> error option) option" where
  "inbound env systemPrompt msgs st =
     (case st of (h, net) \<Rightarrow>
        (case ensureClient env h of
           (Inl e, h') \<Rightarrow> None
         | (Inr cl, h') \<Rightarrow>
             (case create env net cl (createMessage_request env h' systemPrompt msgs) of
                Inl e \<Rightarrow> None
              | Inr (chunks, failure) \<Rightarrow> Some (chunks, failure))))"

text \<open>
  Modelled from the spec: the decorator \<open>withRetry\<close> of \<^verbatim>\<open>../retry\<close>, which is not among
  the sources. It runs the operation; when the operation fails before any output with an
  error classified as transient, it runs it again, a bounded number of times. The
  classification and the number of further attempts are parameters.
\<close>

fun withRetry ::
  "(error \<Rightarrow> bool) \<Rightarrow> nat \<Rightarrow> ('s \<Rightarrow> outcome \<times> 's) \<Rightarrow> 's \<Rightarrow> outcome \<times> 's" where
  "withRetry transient 0 operation s = operation s"
| "withRetry transient (Suc n) operation s =
     (case operation s of
        ((evs, Some e), s') \<Rightarrow>
          if evs = [] \<and> transient e then withRetry transient n operation s'
          else ((evs, Some e), s')
      | ((evs, None), s') \<Rightarrow> ((evs, None), s'))"

section \<open>The network module\<close>

datatype fetch_impl = globalThis_fetch | undiciFetch

datatype dispatcher = Agent | EnvHttpProxyAgent

text \<open>
  The process as the module sees it: whether \<^verbatim>\<open>globalThis.vscode\<close> is defined, the global
  dispatcher of undici, and the two environment variables that \<open>getAxiosSettings\<close> prints.
\<close>

record process =
  vscode :: bool
  globalDispatcher :: dispatcher
  http_proxy :: "string option"
  https_proxy :: "string option"

text \<open>
  The initialiser of the exported constant \<open>fetch\<close>. The branch that tests
  \<^verbatim>\<open>globalThis.vscode\<close> is inside a comment in the source, so nothing of it runs.
\<close>

definition net_fetch :: "process \<Rightarrow> fetch_impl \<times> process" where
  "net_fetch p =
     (let agent = EnvHttpProxyAgent;
          p' = p\<lparr>globalDispatcher := agent\<rparr>
      in (undiciFetch, p'))"

record axios_settings =
  adapter :: string
  fetch :: fetch_impl

text \<open>A value inside a template literal.\<close>

definition template :: "string option \<Rightarrow> string" where
  "template v = (case v of None \<Rightarrow> ''undefined'' | Some s \<Rightarrow> s)"

text \<open>
  \<open>getAxiosSettings\<close> in a module that was initialised in the process \<open>p0\<close>; \<open>p\<close> is the
  process at the time of the call, and the logger is the list of the messages it got.
\<close>

definition getAxiosSettings ::
  "process \<Rightarrow> process \<Rightarrow> string list \<Rightarrow> axios_settings \<times> string list" where
  "getAxiosSettings p0 p logger =
     (\<lparr>adapter = ''fetch'', fetch = fst (net_fetch p0)\<rparr>,
      logger @ [''getAxiosSettings, http_proxy is '' @ template (http_proxy p)
                  @ '' https is '' @ template (https_proxy p)])"

section \<open>An example environment\<close>

text \<open>
  A backend that accepts every request and streams the given chunks, a client constructor
  that succeeds, a history that is already in the outbound format, and a table with one
  model.
\<close>

definition example_env :: "chunk list \<Rightarrow> (chat_message, nat) env" where
  "example_env cs =
     \<lparr>newOpenAI = Inr,
      create = (\<lambda>net cl req. Inr (cs, None)),
      convertToOpenAiMessages = (\<lambda>ms. ms),
      nousresearchModels = [''Hermes-4-405B'' \<mapsto> 131072],
      nousresearchDefaultModelId = ''Hermes-4-405B''\<rparr>"

definition example_handler :: handler where
  "example_handler =
     NousresearchHandler \<lparr>nousResearchApiKey = Some ''sk-1'', apiModelId = None\<rparr>"

section \<open>Basic facts\<close>

lemma truthy_Some [simp]: "truthy (Some s) = (s \<noteq> [])"
  by (simp add: truthy_def)

lemma truthy_None [simp]: "\<not> truthy None"
  by (simp add: truthy_def)

lemma or_zero_Some [simp]: "or_zero (Some n) = n"
  by (simp add: or_zero_def)

lemma or_zero_None [simp]: "or_zero None = 0"
  by (simp add: or_zero_def)

lemma or_zero_case: "(case v of None \<Rightarrow> 0 | Some n \<Rightarrow> n) = or_zero v"
  by (simp split: option.splits)

lemma or_empty_Some [simp]: "or_empty (Some s) = s"
  by (simp add: or_empty_def)

lemma createMessage_loop_append:
  "createMessage_loop (xs @ ys) = createMessage_loop xs @ createMessage_loop ys"
  by (induction xs) simp_all

lemma createMessage_loop_concat:
  "createMessage_loop cs = concat (map createMessage_chunk cs)"
  by (induction cs) simp_all

lemma set_createMessage_loop:
  "set (createMessage_loop cs) = (\<Union>c \<in> set cs. set (createMessage_chunk c))"
  by (induction cs) simp_all

lemma createMessage_chunk_unset: "unset c \<Longrightarrow> createMessage_chunk c = []"
  by (auto simp: unset_def createMessage_chunk_def Let_def split: option.splits)

lemma createMessage_loop_unset:
  "\<forall>c\<in>set cs. unset c \<Longrightarrow> createMessage_loop cs = []"
  by (induction cs) (simp_all add: createMessage_chunk_unset)

lemma createMessage_chunk_nonempty_strings:
  "Text [] \<notin> set (createMessage_chunk c) \<and> Reasoning [] \<notin> set (createMessage_chunk c)"
  by (simp add: createMessage_chunk_def Let_def truthy_def split: option.splits)

text \<open>A call that reaches the backend yields the translation of the stream it gets.\<close>

lemma createMessage_streams:
  assumes "inbound env sp ms st = Some (cs, f)"
  shows "fst (createMessage env sp ms st) = (createMessage_loop cs, f)"
  using assms
  by (auto simp: inbound_def createMessage_def Let_def split: prod.splits sum.splits)

lemma ensureClient_options:
  "ensureClient env h = (r, h') \<Longrightarrow> options h' = options h"
  by (auto simp: ensureClient_def split: option.splits if_splits sum.splits)

lemma getModel_options:
  "options h' = options h \<Longrightarrow> getModel env h' = getModel env h"
  by (simp add: getModel_def)

lemma ensureClient_without_key:
  assumes "\<not> truthy (nousResearchApiKey opts)"
  shows "ensureClient env (NousresearchHandler opts) =
           (Inl (Error ''NousResearch API key is required''), NousresearchHandler opts)"
  using assms by (simp add: ensureClient_def NousresearchHandler_def)

lemma example_inbound:
  "inbound (example_env cs) sp ms (example_handler, net) = Some (cs, None)"
  by (simp add: inbound_def example_env_def example_handler_def NousresearchHandler_def
      ensureClient_def)

section \<open>Claims about the provider\<close>

text \<open>
  Claim C1. An adapter constructed from options without an API key (the key absent or
  empty) fails on its first \<open>createMessage\<close> with the error of \<open>ensureClient\<close>: nothing is
  yielded, the handler is unchanged and the list of requests sent to the network is the
  one before the call, whatever the backend is. The same holds under \<open>withRetry\<close>, for
  every classification of errors and every number of further attempts.
\<close>

theorem createMessage_requires_key:
  assumes "\<not> truthy (nousResearchApiKey opts)"
  shows "createMessage env sp ms (NousresearchHandler opts, net) =
           (([], Some (Error ''NousResearch API key is required'')),
            NousresearchHandler opts, net)
       \<and> withRetry transient n (createMessage env sp ms) (NousresearchHandler opts, net) =
           (([], Some (Error ''NousResearch API key is required'')),
            NousresearchHandler opts, net)"
proof -
  have body: "createMessage env sp ms (NousresearchHandler opts, net) =
           (([], Some (Error ''NousResearch API key is required'')),
            NousresearchHandler opts, net)"
    by (simp add: createMessage_def ensureClient_without_key [OF assms])
  have "withRetry transient n (createMessage env sp ms) (NousresearchHandler opts, net) =
           (([], Some (Error ''NousResearch API key is required'')),
            NousresearchHandler opts, net)"
    by (induction n) (simp_all add: body)
  with body show ?thesis by simp
qed

theorem createMessage_requires_key_witness:
  "createMessage (example_env []) ''You are helpful'' []
     (NousresearchHandler \<lparr>nousResearchApiKey = None, apiModelId = None\<rparr>, []) =
     (([], Some (Error ''NousResearch API key is required'')),
      NousresearchHandler \<lparr>nousResearchApiKey = None, apiModelId = None\<rparr>, [])
   \<and> withRetry (\<lambda>e. True) 2 (createMessage (example_env []) ''You are helpful'' [])
     (NousresearchHandler \<lparr>nousResearchApiKey = None, apiModelId = None\<rparr>, []) =
     (([], Some (Error ''NousResearch API key is required'')),
      NousresearchHandler \<lparr>nousResearchApiKey = None, apiModelId = None\<rparr>, [])"
  using createMessage_requires_key
    [of "\<lparr>nousResearchApiKey = None, apiModelId = None\<rparr>" "example_env []"
        "''You are helpful''" "[]" "[]" "\<lambda>e. True" 2]
  by simp

text \<open>
  Claim C2, as stated, at a chunk whose delta carries the empty string as content: the
  delta carries a content string, and no event is yielded for the chunk, by the loop body
  and by a whole call that receives that chunk.
\<close>

theorem createMessage_empty_content_counterexample:
  "delta.content \<lparr>delta.content = Some [], reasoning_content = None\<rparr> = Some []
   \<and> createMessage_chunk
       \<lparr>choices = [\<lparr>delta = Some \<lparr>delta.content = Some [], reasoning_content = None\<rparr>\<rparr>],
        usage = None\<rparr> = []
   \<and> fst (createMessage
       (example_env
          [\<lparr>choices = [\<lparr>delta = Some \<lparr>delta.content = Some [], reasoning_content = None\<rparr>\<rparr>],
            usage = None\<rparr>])
       ''You are helpful'' [] (example_handler, [])) = ([], None)"
  by (simp add: createMessage_chunk_def chunk_delta_def createMessage_def example_env_def
      example_handler_def NousresearchHandler_def ensureClient_def)

text \<open>
  Claim C2, amended. For every chunk that a call receives: if its delta carries a
  non-empty content string, a text event with exactly that string is yielded, and it is
  the only text event of the chunk; if its delta carries a non-empty reasoning content, a
  reasoning event with that string is yielded, the only one of the chunk; if the chunk
  carries usage, a usage event is yielded whose counts are the chunk's \<open>prompt_tokens\<close> and
  \<open>completion_tokens\<close>, each 0 when absent, the only one of the chunk.
\<close>

theorem createMessage_chunk_events:
  assumes "inbound env sp ms st = Some (cs, f)" and "c \<in> set cs"
  shows "(\<forall>d s. chunk_delta c = Some d \<and> delta.content d = Some s \<and> s \<noteq> [] \<longrightarrow>
            Text s \<in> set (fst (fst (createMessage env sp ms st)))
            \<and> filter (\<lambda>e. kind e = 0) (createMessage_chunk c) = [Text s])
       \<and> (\<forall>d r. chunk_delta c = Some d \<and> reasoning_content d = Some (Some r) \<and> r \<noteq> [] \<longrightarrow>
            Reasoning r \<in> set (fst (fst (createMessage env sp ms st)))
            \<and> filter (\<lambda>e. kind e = 1) (createMessage_chunk c) = [Reasoning r])
       \<and> (\<forall>u. usage c = Some u \<longrightarrow>
            Usage (case prompt_tokens u of None \<Rightarrow> 0 | Some n \<Rightarrow> n)
                  (case completion_tokens u of None \<Rightarrow> 0 | Some n \<Rightarrow> n)
              \<in> set (fst (fst (createMessage env sp ms st)))
            \<and> filter (\<lambda>e. kind e = 2) (createMessage_chunk c) =
                [Usage (case prompt_tokens u of None \<Rightarrow> 0 | Some n \<Rightarrow> n)
                       (case completion_tokens u of None \<Rightarrow> 0 | Some n \<Rightarrow> n)])"
proof (intro conjI allI impI)
  have ev: "set (createMessage_chunk c) \<subseteq> set (fst (fst (createMessage env sp ms st)))"
    using assms(2) by (auto simp: createMessage_streams [OF assms(1)] set_createMessage_loop)
  {
    fix d s
    assume a: "chunk_delta c = Some d \<and> delta.content d = Some s \<and> s \<noteq> []"
    then have "createMessage_chunk c \<noteq> [] \<and> hd (createMessage_chunk c) = Text s"
      by (simp add: createMessage_chunk_def Let_def split: option.splits)
    then have "Text s \<in> set (createMessage_chunk c)"
      by (metis hd_in_set)
    with ev show "Text s \<in> set (fst (fst (createMessage env sp ms st)))"
      by blast
    from a show "filter (\<lambda>e. kind e = 0) (createMessage_chunk c) = [Text s]"
      by (simp add: createMessage_chunk_def Let_def split: option.splits)
  }
  {
    fix d r
    assume a: "chunk_delta c = Some d \<and> reasoning_content d = Some (Some r) \<and> r \<noteq> []"
    then have "Reasoning r \<in> set (createMessage_chunk c)"
      by (simp add: createMessage_chunk_def Let_def split: option.splits)
    with ev show "Reasoning r \<in> set (fst (fst (createMessage env sp ms st)))"
      by blast
    from a show "filter (\<lambda>e. kind e = 1) (createMessage_chunk c) = [Reasoning r]"
      by (simp add: createMessage_chunk_def Let_def split: option.splits)
  }
  {
    fix u
    assume a: "usage c = Some u"
    then have "last (createMessage_chunk c) =
        Usage (or_zero (prompt_tokens u)) (or_zero (completion_tokens u))
        \<and> createMessage_chunk c \<noteq> []"
      by (simp add: createMessage_chunk_def Let_def)
    then have "Usage (or_zero (prompt_tokens u)) (or_zero (completion_tokens u))
        \<in> set (createMessage_chunk c)"
      by (metis last_in_set)
    with ev show "Usage (case prompt_tokens u of None \<Rightarrow> 0 | Some n \<Rightarrow> n)
                  (case completion_tokens u of None \<Rightarrow> 0 | Some n \<Rightarrow> n)
              \<in> set (fst (fst (createMessage env sp ms st)))"
      unfolding or_zero_case by blast
    from a show "filter (\<lambda>e. kind e = 2) (createMessage_chunk c) =
                [Usage (case prompt_tokens u of None \<Rightarrow> 0 | Some n \<Rightarrow> n)
                       (case completion_tokens u of None \<Rightarrow> 0 | Some n \<Rightarrow> n)]"
      unfolding or_zero_case
      by (simp add: createMessage_chunk_def Let_def split: option.splits)
  }
qed

theorem createMessage_chunk_events_witness:
  "Text ''He'' \<in> set (fst (fst (createMessage
       (example_env [\<lparr>choices = [\<lparr>delta = Some \<lparr>delta.content = Some ''He'',
                        reasoning_content = Some (Some ''hm'')\<rparr>\<rparr>],
                      usage = Some \<lparr>prompt_tokens = Some 5, completion_tokens = None\<rparr>\<rparr>])
       ''You are helpful'' [] (example_handler, []))))
   \<and> Reasoning ''hm'' \<in> set (fst (fst (createMessage
       (example_env [\<lparr>choices = [\<lparr>delta = Some \<lparr>delta.content = Some ''He'',
                        reasoning_content = Some (Some ''hm'')\<rparr>\<rparr>],
                      usage = Some \<lparr>prompt_tokens = Some 5, completion_tokens = None\<rparr>\<rparr>])
       ''You are helpful'' [] (example_handler, []))))
   \<and> Usage 5 0 \<in> set (fst (fst (createMessage
       (example_env [\<lparr>choices = [\<lparr>delta = Some \<lparr>delta.content = Some ''He'',
                        reasoning_content = Some (Some ''hm'')\<rparr>\<rparr>],
                      usage = Some \<lparr>prompt_tokens = Some 5, completion_tokens = None\<rparr>\<rparr>])
       ''You are helpful'' [] (example_handler, []))))"
proof -
  let ?c = "\<lparr>choices = [\<lparr>delta = Some \<lparr>delta.content = Some ''He'',
                        reasoning_content = Some (Some ''hm'')\<rparr>\<rparr>],
                      usage = Some \<lparr>prompt_tokens = Some 5, completion_tokens = None\<rparr>\<rparr>"
  have h1: "inbound (example_env [?c]) ''You are helpful'' [] (example_handler, []) =
              Some ([?c], None)"
    by (rule example_inbound)
  have h2: "?c \<in> set [?c]" by simp
  have d: "chunk_delta ?c = Some \<lparr>delta.content = Some ''He'',
                        reasoning_content = Some (Some ''hm'')\<rparr>"
    by (simp add: chunk_delta_def)
  note w = createMessage_chunk_events [OF h1 h2]
  from w have "Text ''He'' \<in> set (fst (fst (createMessage (example_env [?c])
       ''You are helpful'' [] (example_handler, []))))"
    using d by simp
  moreover from w have "Reasoning ''hm'' \<in> set (fst (fst (createMessage (example_env [?c])
       ''You are helpful'' [] (example_handler, []))))"
    using d by simp
  moreover from w have "Usage 5 0 \<in> set (fst (fst (createMessage (example_env [?c])
       ''You are helpful'' [] (example_handler, []))))"
    by simp
  ultimately show ?thesis by blast
qed

text \<open>
  Claim C3. The events of a call are the events of its chunks, chunk after chunk in the
  order the chunks arrive; when no chunk has a content, a reasoning content or a usage
  field set, the call yields no event; and no text or reasoning event with the empty
  string is ever yielded.
\<close>

theorem createMessage_order_no_empty:
  assumes "inbound env sp ms st = Some (cs, f)"
  shows "fst (fst (createMessage env sp ms st)) = concat (map createMessage_chunk cs)
       \<and> ((\<forall>c\<in>set cs. unset c) \<longrightarrow> fst (fst (createMessage env sp ms st)) = [])
       \<and> Text [] \<notin> set (fst (fst (createMessage env sp ms st)))
       \<and> Reasoning [] \<notin> set (fst (fst (createMessage env sp ms st)))"
proof -
  have ev: "fst (fst (createMessage env sp ms st)) = createMessage_loop cs"
    by (simp add: createMessage_streams [OF assms])
  have "Text [] \<notin> set (createMessage_loop cs)"
    using createMessage_chunk_nonempty_strings by (simp add: set_createMessage_loop)
  moreover have "Reasoning [] \<notin> set (createMessage_loop cs)"
    using createMessage_chunk_nonempty_strings by (simp add: set_createMessage_loop)
  moreover have "(\<forall>c\<in>set cs. unset c) \<longrightarrow> createMessage_loop cs = []"
    using createMessage_loop_unset by blast
  ultimately show ?thesis
    unfolding ev by (simp add: createMessage_loop_concat)
qed

theorem createMessage_order_no_empty_witness:
  "fst (fst (createMessage
      (example_env [\<lparr>choices = [], usage = None\<rparr>,
         \<lparr>choices = [\<lparr>delta = Some \<lparr>delta.content = None, reasoning_content = Some None\<rparr>\<rparr>],
          usage = None\<rparr>,
         \<lparr>choices = [\<lparr>delta = None\<rparr>], usage = None\<rparr>])
      ''You are helpful'' [] (example_handler, []))) = []"
proof -
  let ?cs = "[\<lparr>choices = [], usage = None\<rparr>,
         \<lparr>choices = [\<lparr>delta = Some \<lparr>delta.content = None, reasoning_content = Some None\<rparr>\<rparr>],
          usage = None\<rparr>,
         \<lparr>choices = [\<lparr>delta = None\<rparr>], usage = None\<rparr>]"
  have h: "inbound (example_env ?cs) ''You are helpful'' [] (example_handler, []) =
             Some (?cs, None)"
    by (rule example_inbound)
  have u: "\<forall>c\<in>set ?cs. unset c"
    by (simp add: unset_def chunk_delta_def)
  from createMessage_order_no_empty [OF h] u show ?thesis
    by blast
qed

text \<open>
  Claim C5. With the system prompt "You are helpful" and the history of one user message
  "hi", when the backend streams a chunk whose delta has the content "He", one with the
  content "llo", and one without choices whose usage has 5 prompt tokens and 2 completion
  tokens, the call yields exactly \<open>Text ''He''\<close>, \<open>Text ''llo''\<close>, \<open>Usage 5 2\<close>, in this order.
\<close>

theorem createMessage_scenario:
  assumes "inbound env ''You are helpful'' [\<lparr>role = ''user'', chat_message.content = ''hi''\<rparr>] st =
             Some ([\<lparr>choices = [\<lparr>delta = Some \<lparr>delta.content = Some ''He'',
                                                reasoning_content = None\<rparr>\<rparr>],
                      usage = None\<rparr>,
                    \<lparr>choices = [\<lparr>delta = Some \<lparr>delta.content = Some ''llo'',
                                                reasoning_content = None\<rparr>\<rparr>],
                      usage = None\<rparr>,
                    \<lparr>choices = [],
                      usage = Some \<lparr>prompt_tokens = Some 5, completion_tokens = Some 2\<rparr>\<rparr>], f)"
  shows "fst (createMessage env ''You are helpful''
                [\<lparr>role = ''user'', chat_message.content = ''hi''\<rparr>] st) =
           ([Text ''He'', Text ''llo'', Usage 5 2], f)"
  unfolding createMessage_streams [OF assms]
  by (simp add: createMessage_chunk_def chunk_delta_def)

theorem createMessage_scenario_witness:
  "fst (createMessage
     (example_env
        [\<lparr>choices = [\<lparr>delta = Some \<lparr>delta.content = Some ''He'', reasoning_content = None\<rparr>\<rparr>],
          usage = None\<rparr>,
         \<lparr>choices = [\<lparr>delta = Some \<lparr>delta.content = Some ''llo'', reasoning_content = None\<rparr>\<rparr>],
          usage = None\<rparr>,
         \<lparr>choices = [],
          usage = Some \<lparr>prompt_tokens = Some 5, completion_tokens = Some 2\<rparr>\<rparr>])
     ''You are helpful'' [\<lparr>role = ''user'', chat_message.content = ''hi''\<rparr>]
     (example_handler, [])) = ([Text ''He'', Text ''llo'', Usage 5 2], None)"
proof -
  let ?cs = "[\<lparr>choices = [\<lparr>delta = Some \<lparr>delta.content = Some ''He'', reasoning_content = None\<rparr>\<rparr>],
          usage = None\<rparr>,
         \<lparr>choices = [\<lparr>delta = Some \<lparr>delta.content = Some ''llo'', reasoning_content = None\<rparr>\<rparr>],
          usage = None\<rparr>,
         \<lparr>choices = [],
          usage = Some \<lparr>prompt_tokens = Some 5, completion_tokens = Some 2\<rparr>\<rparr>]"
  have h: "inbound (example_env ?cs) ''You are helpful''
             [\<lparr>role = ''user'', chat_message.content = ''hi''\<rparr>] (example_handler, []) =
             Some (?cs, None)"
    by (rule example_inbound)
  show ?thesis
    by (rule createMessage_scenario [OF h])
qed

text \<open>
  Claim C6. Every call sends at most one request: none when the client cannot be
  resolved, and otherwise the body with the identifier of \<open>getModel\<close> as model, the messages
  that begin with the system prompt as a message of role \<open>system\<close> followed by the
  translated history, the temperature (0), \<open>stream\<close> true and \<open>include_usage\<close> true.
\<close>

theorem createMessage_request_body:
  "snd (snd (createMessage env sp ms (h, net))) =
     net @ (case fst (ensureClient env h) of
              Inl e \<Rightarrow> []
            | Inr cl \<Rightarrow>
                [\<lparr>model = fst (getModel env h),
                  messages = \<lparr>role = ''system'', chat_message.content = sp\<rparr>
                               # convertToOpenAiMessages env ms,
                  temperature = 0, stream = True,
                  stream_options = \<lparr>include_usage = True\<rparr>\<rparr>])"
proof (cases "ensureClient env h")
  case (Pair r h')
  then have "options h' = options h"
    by (rule ensureClient_options)
  then have g: "getModel env h' = getModel env h"
    by (rule getModel_options)
  show ?thesis
  proof (cases r)
    case (Inl e)
    with Pair show ?thesis
      by (simp add: createMessage_def)
  next
    case (Inr cl)
    have req: "createMessage_request env h' sp ms =
        \<lparr>model = fst (getModel env h),
         messages = \<lparr>role = ''system'', chat_message.content = sp\<rparr>
                      # convertToOpenAiMessages env ms,
         temperature = 0, stream = True,
         stream_options = \<lparr>include_usage = True\<rparr>\<rparr>"
      by (simp add: createMessage_request_def Let_def g)
    have "snd (snd (createMessage env sp ms (h, net))) =
            net @ [createMessage_request env h' sp ms]"
      using Pair Inr
      by (cases "create env net cl (createMessage_request env h' sp ms)")
        (simp_all add: createMessage_def Let_def split: prod.splits)
    with Pair Inr show ?thesis
      by (simp add: req)
  qed
qed

theorem createMessage_request_body_witness:
  "snd (snd (createMessage (example_env []) ''You are helpful''
       [\<lparr>role = ''user'', chat_message.content = ''hi''\<rparr>] (example_handler, []))) =
     [\<lparr>model = ''Hermes-4-405B'',
       messages = [\<lparr>role = ''system'', chat_message.content = ''You are helpful''\<rparr>,
                   \<lparr>role = ''user'', chat_message.content = ''hi''\<rparr>],
       temperature = 0, stream = True, stream_options = \<lparr>include_usage = True\<rparr>\<rparr>]"
  using createMessage_request_body
    [of "example_env []" "''You are helpful''"
        "[\<lparr>role = ''user'', chat_message.content = ''hi''\<rparr>]" example_handler "[]"]
  by (simp add: example_env_def example_handler_def NousresearchHandler_def ensureClient_def
      getModel_def)

text \<open>
  Claim C9. A chunk whose \<open>choices\<close> array is empty, or whose first choice has no delta,
  yields no text and no reasoning event, and yields its usage event if it carries usage;
  the call goes on with the chunks after it, and throws nothing but what the stream
  itself ends with.
\<close>

theorem createMessage_malformed_chunk:
  assumes "inbound env sp ms st = Some (xs @ c # ys, f)"
    and "choices c = [] \<or> (\<exists>ch rest. choices c = ch # rest \<and> delta ch = None)"
  shows "createMessage_chunk c =
           (case usage c of
              None \<Rightarrow> []
            | Some u \<Rightarrow> [Usage (or_zero (prompt_tokens u)) (or_zero (completion_tokens u))])
       \<and> fst (createMessage env sp ms st) =
           (createMessage_loop xs @ createMessage_chunk c @ createMessage_loop ys, f)"
proof -
  from assms(2) have "chunk_delta c = None"
    by (auto simp: chunk_delta_def)
  then have "createMessage_chunk c =
           (case usage c of
              None \<Rightarrow> []
            | Some u \<Rightarrow> [Usage (or_zero (prompt_tokens u)) (or_zero (completion_tokens u))])"
    by (simp add: createMessage_chunk_def split: option.splits)
  moreover have "fst (createMessage env sp ms st) =
           (createMessage_loop xs @ createMessage_chunk c @ createMessage_loop ys, f)"
    by (simp add: createMessage_streams [OF assms(1)] createMessage_loop_append)
  ultimately show ?thesis by simp
qed

theorem createMessage_malformed_chunk_witness:
  "fst (createMessage
     (example_env
        [\<lparr>choices = [\<lparr>delta = Some \<lparr>delta.content = Some ''He'', reasoning_content = None\<rparr>\<rparr>],
          usage = None\<rparr>,
         \<lparr>choices = [\<lparr>delta = None\<rparr>],
          usage = Some \<lparr>prompt_tokens = Some 5, completion_tokens = None\<rparr>\<rparr>,
         \<lparr>choices = [], usage = None\<rparr>,
         \<lparr>choices = [\<lparr>delta = Some \<lparr>delta.content = Some ''llo'', reasoning_content = None\<rparr>\<rparr>],
          usage = None\<rparr>])
     ''You are helpful'' [] (example_handler, [])) =
     ([Text ''He'', Usage 5 0, Text ''llo''], None)"
proof -
  let ?a = "\<lparr>choices = [\<lparr>delta = Some \<lparr>delta.content = Some ''He'', reasoning_content = None\<rparr>\<rparr>],
          usage = None\<rparr>"
  let ?c = "\<lparr>choices = [\<lparr>delta = None\<rparr>],
          usage = Some \<lparr>prompt_tokens = Some 5, completion_tokens = None\<rparr>\<rparr>"
  let ?ys = "[\<lparr>choices = [], usage = None\<rparr>,
         \<lparr>choices = [\<lparr>delta = Some \<lparr>delta.content = Some ''llo'', reasoning_content = None\<rparr>\<rparr>],
          usage = None\<rparr>]"
  have h1: "inbound (example_env ([?a] @ ?c # ?ys)) ''You are helpful'' [] (example_handler, []) =
              Some ([?a] @ ?c # ?ys, None)"
    by (rule example_inbound)
  have h2: "choices ?c = [] \<or> (\<exists>ch rest. choices ?c = ch # rest \<and> delta ch = None)"
    by simp
  from createMessage_malformed_chunk [OF h1 h2] show ?thesis
    by (simp add: createMessage_chunk_def chunk_delta_def)
qed

text \<open>
  Claim C10. The events of one chunk are at most one of each kind, in the order text,
  reasoning, usage; a chunk that carries a non-empty content, a non-empty reasoning
  content and usage yields exactly the three events in this order.
\<close>

theorem createMessage_chunk_order:
  "sorted_wrt (<) (map kind (createMessage_chunk c))
   \<and> (\<forall>d s r u. chunk_delta c = Some d \<and> delta.content d = Some s \<and> s \<noteq> []
          \<and> reasoning_content d = Some (Some r) \<and> r \<noteq> [] \<and> usage c = Some u \<longrightarrow>
        createMessage_chunk c =
          [Text s, Reasoning r,
           Usage (or_zero (prompt_tokens u)) (or_zero (completion_tokens u))])"
proof (intro conjI allI impI)
  show "sorted_wrt (<) (map kind (createMessage_chunk c))"
    by (simp add: createMessage_chunk_def Let_def split: option.splits)
next
  fix d s r u
  assume "chunk_delta c = Some d \<and> delta.content d = Some s \<and> s \<noteq> []
          \<and> reasoning_content d = Some (Some r) \<and> r \<noteq> [] \<and> usage c = Some u"
  then show "createMessage_chunk c =
          [Text s, Reasoning r,
           Usage (or_zero (prompt_tokens u)) (or_zero (completion_tokens u))]"
    by (simp add: createMessage_chunk_def Let_def)
qed

theorem createMessage_chunk_order_witness:
  "createMessage_chunk
     \<lparr>choices = [\<lparr>delta = Some \<lparr>delta.content = Some ''He'',
                                reasoning_content = Some (Some ''hm'')\<rparr>\<rparr>],
      usage = Some \<lparr>prompt_tokens = Some 5, completion_tokens = Some 2\<rparr>\<rparr> =
     [Text ''He'', Reasoning ''hm'', Usage 5 2]"
proof -
  let ?c = "\<lparr>choices = [\<lparr>delta = Some \<lparr>delta.content = Some ''He'',
                                reasoning_content = Some (Some ''hm'')\<rparr>\<rparr>],
      usage = Some \<lparr>prompt_tokens = Some 5, completion_tokens = Some 2\<rparr>\<rparr>"
  have d: "chunk_delta ?c = Some \<lparr>delta.content = Some ''He'',
                                reasoning_content = Some (Some ''hm'')\<rparr>"
    by (simp add: chunk_delta_def)
  from createMessage_chunk_order [of ?c] d show ?thesis
    by simp
qed

subsection \<open>The model that \<open>getModel\<close> resolves\<close>

text \<open>
  An identifier that is an own key of the table resolves to its entry; an identifier that
  is absent, empty, or not found by \<^verbatim>\<open>in\<close> resolves to the default.
\<close>

lemma getModel_own_key:
  assumes "apiModelId (options h) = Some k" and "k \<noteq> []"
    and "nousresearchModels env k = Some i"
  shows "getModel env h = (k, ModelInfo i)"
  using assms by (simp add: getModel_def js_in_def js_get_def)

lemma getModel_default:
  assumes "\<not> truthy (apiModelId (options h))
           \<or> \<not> js_in (or_empty (apiModelId (options h))) (nousresearchModels env)"
  shows "getModel env h =
           (nousresearchDefaultModelId env,
            js_get (nousresearchModels env) (nousresearchDefaultModelId env))"
  using assms by (auto simp: getModel_def)

text \<open>
  Claim C4, at the identifier \<^verbatim>\<open>toString\<close>. It is no key of the table, yet \<^verbatim>\<open>in\<close> finds
  it on \<open>Object.prototype\<close>: \<open>getModel\<close> returns this identifier with the inherited function
  as its info, neither an entry of the table nor the default.
\<close>

theorem getModel_inherited_property:
  "nousresearchModels (example_env []) ''toString'' = None
   \<and> nousresearchDefaultModelId (example_env []) = ''Hermes-4-405B''
   \<and> getModel (example_env [])
       (NousresearchHandler \<lparr>nousResearchApiKey = Some ''sk-1'', apiModelId = Some ''toString''\<rparr>) =
       (''toString'', Inherited ''toString'')"
  by (simp add: getModel_def Let_def example_env_def NousresearchHandler_def js_in_def
      js_get_def object_prototype_def)

section \<open>Claims about the network module\<close>

lemma net_fetch_always: "net_fetch p = (undiciFetch, p\<lparr>globalDispatcher := EnvHttpProxyAgent\<rparr>)"
  by (simp add: net_fetch_def)

text \<open>
  Claim C7, in a process where \<^verbatim>\<open>globalThis.vscode\<close> is defined. The initialiser still
  constructs the proxy agent, installs it as the global dispatcher and exports the fetch
  of undici, not the native one.
\<close>

theorem net_fetch_in_vscode:
  "net_fetch \<lparr>vscode = True, globalDispatcher = Agent, http_proxy = None, https_proxy = None\<rparr> =
     (undiciFetch,
      \<lparr>vscode = True, globalDispatcher = EnvHttpProxyAgent, http_proxy = None,
       https_proxy = None\<rparr>)"
  by (simp add: net_fetch_def)

text \<open>
  Claim C8. Every call of \<open>getAxiosSettings\<close> returns the adapter \<^verbatim>\<open>"fetch"\<close> together
  with the fetch that the module exports, whatever the process and the logger are at the
  time of the call.
\<close>

theorem getAxiosSettings_same_fetch:
  "fst (getAxiosSettings p0 p logger) = \<lparr>adapter = ''fetch'', fetch = fst (net_fetch p0)\<rparr>
   \<and> fst (getAxiosSettings p0 p' logger') = fst (getAxiosSettings p0 p logger)"
  by (simp add: getAxiosSettings_def)

end
